theory Spec2Isabelle
  imports Complex_Main "HOL-Library.Word"
begin

unbundle bit_operations_syntax

section \<open>Values, responses and the environment of a call\<close>

text \<open>
  A Python \<open>str\<close> is represented by the characters of its UTF-8 encoding, so that
  \<open>s.encode()\<close> is the byte sequence of the same list. Timestamps are the numbers
  returned by \<open>time.time()\<close>; the code stores and returns them and never computes with them.
\<close>

type_synonym timestamp = real

datatype pyval = Str string | Num timestamp | Bool bool

text \<open>
  The response dictionary of \<open>common/protocol.py\<close>: the keys \<open>success\<close> and
  \<open>timestamp\<close> are always there, \<open>data\<close> and \<open>error\<close> only when given.
\<close>

record response =
  success :: bool
  timestamp :: timestamp
  data :: "(string \<rightharpoonup> pyval) option"
  error :: "string option"

text \<open>
  What the world outside the program supplies during one call:
  \<open>time_time k\<close> is the k-th reading of \<open>time.time()\<close> made by the call,
  \<open>uuid4\<close> the string of the UUID drawn by the call, \<open>io_error\<close> the text of the
  exception raised by the file operations of the call (\<open>None\<close> when they succeed),
  \<open>fs_clock\<close> the modification time the file system stamps on a file written by the call,
  \<open>type_error\<close> the text of the exception the interpreter raises when keyword
  arguments do not fit the signature of the function called, and \<open>object_attributes\<close>
  the attributes that every object inherits from \<open>object\<close> (such as \<open>__class__\<close> or
  \<open>__dict__\<close>), each with whether it is callable.
\<close>

record env =
  time_time :: "nat \<Rightarrow> timestamp"
  uuid4 :: string
  io_error :: "string option"
  fs_clock :: timestamp
  type_error :: string
  object_attributes :: "string \<rightharpoonup> bool"

definition create_response ::
  "env \<Rightarrow> nat \<Rightarrow> bool \<Rightarrow> (string \<rightharpoonup> pyval) option \<Rightarrow> string option \<Rightarrow> response" where
  "create_response e k ok d err =
     \<lparr>success = ok, timestamp = time_time e k, data = d, error = err\<rparr>"

text \<open>
  \<open>create_sync_response\<close> reads the clock for the data and then again, inside
  \<open>create_response\<close>, for the envelope. The dispatcher always passes a sync id.
\<close>

definition create_sync_response ::
  "env \<Rightarrow> nat \<Rightarrow> bool \<Rightarrow> string option \<Rightarrow> string option \<Rightarrow> string option \<Rightarrow> string option
     \<Rightarrow> response" where
  "create_sync_response e k ok txt ver sid err =
     (let sid' = (case sid of None \<Rightarrow> uuid4 e | Some x \<Rightarrow> x);
          d0 = [''sync_id'' \<mapsto> Str sid', ''timestamp'' \<mapsto> Num (time_time e k)];
          d1 = (case txt of None \<Rightarrow> d0 | Some c \<Rightarrow> d0(''content'' \<mapsto> Str c));
          d2 = (case ver of None \<Rightarrow> d1 | Some v \<Rightarrow> d1(''version'' \<mapsto> Str v))
      in create_response e (Suc k) ok (Some d2) err)"

section \<open>The digests of \<open>hashlib\<close>\<close>

text \<open>
  \<open>get_version\<close> calls \<open>hashlib.md5\<close> and \<open>hash_password\<close> calls
  \<open>hashlib.sha256\<close>. Both are library functions; they are written out here after
  RFC 1321 and FIPS 180-4, on 32-bit words, so that the model is closed.
\<close>

type_synonym u8 = "8 word"
type_synonym u32 = "32 word"

definition bytes_of :: "string \<Rightarrow> u8 list" where
  "bytes_of s = map of_char s"

fun chunks :: "nat \<Rightarrow> 'a list \<Rightarrow> 'a list list" where
  "chunks n [] = []"
| "chunks n (x # xs) = take n (x # xs) # (if n = 0 then [] else chunks n (drop n (x # xs)))"

definition le_bytes :: "nat \<Rightarrow> 'a::len word \<Rightarrow> u8 list" where
  "le_bytes k w = map (\<lambda>i. ucast (drop_bit (8 * i) w)) [0..<k]"

definition be_bytes :: "nat \<Rightarrow> 'a::len word \<Rightarrow> u8 list" where
  "be_bytes k w = rev (le_bytes k w)"

fun le_word :: "u8 list \<Rightarrow> u32" where
  "le_word [] = 0"
| "le_word (b # bs) = ucast b OR push_bit 8 (le_word bs)"

definition be_word :: "u8 list \<Rightarrow> u32" where
  "be_word bs = le_word (rev bs)"

definition rotl32 :: "nat \<Rightarrow> u32 \<Rightarrow> u32" where
  "rotl32 n w = push_bit n w OR drop_bit (32 - n) w"

definition rotr32 :: "nat \<Rightarrow> u32 \<Rightarrow> u32" where
  "rotr32 n w = drop_bit n w OR push_bit (32 - n) w"

definition hexdigit :: "nat \<Rightarrow> char" where
  "hexdigit n = ''0123456789abcdef'' ! (n mod 16)"

definition hexlify :: "u8 list \<Rightarrow> string" where
  "hexlify bs = concat (map (\<lambda>b. [hexdigit (unat b div 16), hexdigit (unat b mod 16)]) bs)"

subsection \<open>MD5\<close>

definition md5_s :: "nat list" where
  "md5_s = [7, 12, 17, 22, 7, 12, 17, 22, 7, 12, 17, 22, 7, 12, 17, 22,
            5, 9, 14, 20, 5, 9, 14, 20, 5, 9, 14, 20, 5, 9, 14, 20,
            4, 11, 16, 23, 4, 11, 16, 23, 4, 11, 16, 23, 4, 11, 16, 23,
            6, 10, 15, 21, 6, 10, 15, 21, 6, 10, 15, 21, 6, 10, 15, 21]"

definition md5_K :: "u32 list" where
  "md5_K = [0xD76AA478, 0xE8C7B756, 0x242070DB, 0xC1BDCEEE, 0xF57C0FAF, 0x4787C62A, 0xA8304613, 0xFD469501,
            0x698098D8, 0x8B44F7AF, 0xFFFF5BB1, 0x895CD7BE, 0x6B901122, 0xFD987193, 0xA679438E, 0x49B40821,
            0xF61E2562, 0xC040B340, 0x265E5A51, 0xE9B6C7AA, 0xD62F105D, 0x02441453, 0xD8A1E681, 0xE7D3FBC8,
            0x21E1CDE6, 0xC33707D6, 0xF4D50D87, 0x455A14ED, 0xA9E3E905, 0xFCEFA3F8, 0x676F02D9, 0x8D2A4C8A,
            0xFFFA3942, 0x8771F681, 0x6D9D6122, 0xFDE5380C, 0xA4BEEA44, 0x4BDECFA9, 0xF6BB4B60, 0xBEBFBC70,
            0x289B7EC6, 0xEAA127FA, 0xD4EF3085, 0x04881D05, 0xD9D4D039, 0xE6DB99E5, 0x1FA27CF8, 0xC4AC5665,
            0xF4292244, 0x432AFF97, 0xAB9423A7, 0xFC93A039, 0x655B59C3, 0x8F0CCC92, 0xFFEFF47D, 0x85845DD1,
            0x6FA87E4F, 0xFE2CE6E0, 0xA3014314, 0x4E0811A1, 0xF7537E82, 0xBD3AF235, 0x2AD7D2BB, 0xEB86D391]"

fun md5_step :: "u32 list \<Rightarrow> u32 \<times> u32 \<times> u32 \<times> u32 \<Rightarrow> nat \<Rightarrow> u32 \<times> u32 \<times> u32 \<times> u32" where
  "md5_step M (A, B, C, D) i =
     (let F = (if i < 16 then (B AND C) OR (NOT B AND D)
               else if i < 32 then (D AND B) OR (NOT D AND C)
               else if i < 48 then B XOR C XOR D
               else C XOR (B OR NOT D));
          g = (if i < 16 then i
               else if i < 32 then (5 * i + 1) mod 16
               else if i < 48 then (3 * i + 5) mod 16
               else (7 * i) mod 16);
          F' = F + A + md5_K ! i + M ! g
      in (D, B + rotl32 (md5_s ! i) F', B, C))"

definition md5_block :: "u32 \<times> u32 \<times> u32 \<times> u32 \<Rightarrow> u8 list \<Rightarrow> u32 \<times> u32 \<times> u32 \<times> u32" where
  "md5_block h blk =
     (case h of (a0, b0, c0, d0) \<Rightarrow>
        (case foldl (md5_step (map le_word (chunks 4 blk))) h [0..<64] of
           (A, B, C, D) \<Rightarrow> (a0 + A, b0 + B, c0 + C, d0 + D)))"

definition md5_pad :: "u8 list \<Rightarrow> u8 list" where
  "md5_pad m = m @ [0x80] @ replicate ((119 - length m mod 64) mod 64) 0
                 @ le_bytes 8 (of_nat (8 * length m) :: 64 word)"

definition md5_digest :: "u8 list \<Rightarrow> u8 list" where
  "md5_digest m =
     (case foldl md5_block (0x67452301, 0xEFCDAB89, 0x98BADCFE, 0x10325476) (chunks 64 (md5_pad m)) of
        (a, b, c, d) \<Rightarrow> concat (map (le_bytes 4) [a, b, c, d]))"

definition md5_hexdigest :: "string \<Rightarrow> string" where
  "md5_hexdigest s = hexlify (md5_digest (bytes_of s))"

subsection \<open>SHA-256\<close>

definition sha256_K :: "u32 list" where
  "sha256_K = [0x428A2F98, 0x71374491, 0xB5C0FBCF, 0xE9B5DBA5, 0x3956C25B, 0x59F111F1, 0x923F82A4, 0xAB1C5ED5,
               0xD807AA98, 0x12835B01, 0x243185BE, 0x550C7DC3, 0x72BE5D74, 0x80DEB1FE, 0x9BDC06A7, 0xC19BF174,
               0xE49B69C1, 0xEFBE4786, 0x0FC19DC6, 0x240CA1CC, 0x2DE92C6F, 0x4A7484AA, 0x5CB0A9DC, 0x76F988DA,
               0x983E5152, 0xA831C66D, 0xB00327C8, 0xBF597FC7, 0xC6E00BF3, 0xD5A79147, 0x06CA6351, 0x14292967,
               0x27B70A85, 0x2E1B2138, 0x4D2C6DFC, 0x53380D13, 0x650A7354, 0x766A0ABB, 0x81C2C92E, 0x92722C85,
               0xA2BFE8A1, 0xA81A664B, 0xC24B8B70, 0xC76C51A3, 0xD192E819, 0xD6990624, 0xF40E3585, 0x106AA070,
               0x19A4C116, 0x1E376C08, 0x2748774C, 0x34B0BCB5, 0x391C0CB3, 0x4ED8AA4A, 0x5B9CCA4F, 0x682E6FF3,
               0x748F82EE, 0x78A5636F, 0x84C87814, 0x8CC70208, 0x90BEFFFA, 0xA4506CEB, 0xBEF9A3F7, 0xC67178F2]"

definition sha256_H0 :: "u32 list" where
  "sha256_H0 = [0x6A09E667, 0xBB67AE85, 0x3C6EF372, 0xA54FF53A, 0x510E527F, 0x9B05688C, 0x1F83D9AB, 0x5BE0CD19]"

definition sha256_schedule :: "u32 list \<Rightarrow> u32 list" where
  "sha256_schedule ws =
     foldl (\<lambda>w i.
        let x = w ! (i - 15); y = w ! (i - 2);
            s0 = rotr32 7 x XOR rotr32 18 x XOR drop_bit 3 x;
            s1 = rotr32 17 y XOR rotr32 19 y XOR drop_bit 10 y
        in w @ [w ! (i - 16) + s0 + w ! (i - 7) + s1]) ws [16..<64]"

fun sha256_step :: "u32 list \<Rightarrow> u32 list \<Rightarrow> nat \<Rightarrow> u32 list" where
  "sha256_step W [a, b, c, d, e, f, g, h] i =
     (let S1 = rotr32 6 e XOR rotr32 11 e XOR rotr32 25 e;
          ch = (e AND f) XOR (NOT e AND g);
          temp1 = h + S1 + ch + sha256_K ! i + W ! i;
          S0 = rotr32 2 a XOR rotr32 13 a XOR rotr32 22 a;
          maj = (a AND b) XOR (a AND c) XOR (b AND c);
          temp2 = S0 + maj
      in [temp1 + temp2, a, b, c, d + temp1, e, f, g])"
| "sha256_step W st i = st"

definition sha256_block :: "u32 list \<Rightarrow> u8 list \<Rightarrow> u32 list" where
  "sha256_block h blk =
     map2 (+) h (foldl (sha256_step (sha256_schedule (map be_word (chunks 4 blk)))) h [0..<64])"

definition sha256_pad :: "u8 list \<Rightarrow> u8 list" where
  "sha256_pad m = m @ [0x80] @ replicate ((119 - length m mod 64) mod 64) 0
                    @ be_bytes 8 (of_nat (8 * length m) :: 64 word)"

definition sha256_digest :: "u8 list \<Rightarrow> u8 list" where
  "sha256_digest m = concat (map (be_bytes 4) (foldl sha256_block sha256_H0 (chunks 64 (sha256_pad m))))"

definition sha256_hexdigest :: "string \<Rightarrow> string" where
  "sha256_hexdigest s = hexlify (sha256_digest (bytes_of s))"

section \<open>The master file: \<open>server/file_handler.py\<close>\<close>

text \<open>
  The handler owns a path; \<open>master_file\<close> is the file found there, its text and its
  modification time, or \<open>None\<close> when there is no such file. The lock is not modelled:
  calls are taken one at a time.
\<close>

record FileHandler =
  file_path :: string
  master_file :: "(string \<times> timestamp) option"

definition default_text :: string where
  "default_text = ''# Master file for RMI File Synchronization System'' @ [CHR 0x0A]"

text \<open>
  The file is opened in text mode with the default \<open>newline=None\<close>: on reading, the
  line endings CR LF and CR arrive as LF. On writing (POSIX) the text is stored as it is.
\<close>

fun universal_newlines :: "string \<Rightarrow> string" where
  "universal_newlines [] = []"
| "universal_newlines [c] = [if c = CHR 0x0D then CHR 0x0A else c]"
| "universal_newlines (c # d # cs) =
     (if c = CHR 0x0D \<and> d = CHR 0x0A then CHR 0x0A # universal_newlines cs
      else if c = CHR 0x0D then CHR 0x0A # universal_newlines (d # cs)
      else c # universal_newlines (d # cs))"

definition ensure_file_exists :: "FileHandler \<Rightarrow> env \<Rightarrow> FileHandler" where
  "ensure_file_exists fh e = fh\<lparr>master_file := Some (default_text, fs_clock e)\<rparr>"

definition FileHandler_init :: "string \<Rightarrow> (string \<times> timestamp) option \<Rightarrow> env \<Rightarrow> FileHandler" where
  "FileHandler_init path found e =
     (let fh = \<lparr>file_path = path, master_file = found\<rparr>
      in if found = None then ensure_file_exists fh e else fh)"

text \<open>
  File operations return \<open>Inl msg\<close> where the source raises; \<open>msg\<close> is the text
  of the exception. A faulty call is taken to leave the file as it was.
\<close>

definition get_content :: "FileHandler \<Rightarrow> env \<Rightarrow> string + (string \<times> FileHandler)" where
  "get_content fh e =
     (case io_error e of
        Some msg \<Rightarrow> Inl msg
      | None \<Rightarrow>
          (case master_file fh of
             None \<Rightarrow> Inr (universal_newlines default_text, ensure_file_exists fh e)
           | Some (txt, m) \<Rightarrow> Inr (universal_newlines txt, fh)))"

definition update_content :: "FileHandler \<Rightarrow> string \<Rightarrow> env \<Rightarrow> bool \<times> FileHandler" where
  "update_content fh txt e =
     (case io_error e of
        Some msg \<Rightarrow> (False, fh)
      | None \<Rightarrow> (True, fh\<lparr>master_file := Some (txt, fs_clock e)\<rparr>))"

definition get_version :: "FileHandler \<Rightarrow> env \<Rightarrow> string + (string \<times> FileHandler)" where
  "get_version fh e =
     (case get_content fh e of
        Inl msg \<Rightarrow> Inl msg
      | Inr (txt, fh') \<Rightarrow> Inr (md5_hexdigest txt, fh'))"

definition get_last_modified :: "FileHandler \<Rightarrow> env \<Rightarrow> string + (timestamp \<times> FileHandler)" where
  "get_last_modified fh e =
     (case io_error e of
        Some msg \<Rightarrow> Inl msg
      | None \<Rightarrow>
          (case master_file fh of
             Some (txt, m) \<Rightarrow> Inr (m, fh)
           | None \<Rightarrow> Inr (fs_clock e, ensure_file_exists fh e)))"

record FileStatus =
  content :: string
  version :: string
  last_modified :: timestamp

definition get_file_status :: "FileHandler \<Rightarrow> env \<Rightarrow> string + (FileStatus \<times> FileHandler)" where
  "get_file_status fh e =
     (case get_content fh e of
        Inl msg \<Rightarrow> Inl msg
      | Inr (txt, fh1) \<Rightarrow>
          (case get_last_modified fh1 e of
             Inl msg \<Rightarrow> Inl msg
           | Inr (m, fh2) \<Rightarrow>
               Inr (\<lparr>content = txt, version = md5_hexdigest txt, last_modified = m\<rparr>, fh2)))"

section \<open>Authentication: \<open>common/auth.py\<close>\<close>

definition hash_password :: "string \<Rightarrow> string" where
  "hash_password pw = sha256_hexdigest pw"

text \<open>
  The users file is read at every call. It is modelled by what \<open>json.load\<close> makes of
  it: a table from user names to stored hashes, or \<open>None\<close> when the file is missing or
  cannot be read as such a table; \<open>verify_user\<close> answers \<open>False\<close> in all those cases.
\<close>

definition verify_user :: "string \<Rightarrow> string \<Rightarrow> (string \<rightharpoonup> string) option \<Rightarrow> bool" where
  "verify_user uname pw users =
     (case users of
        None \<Rightarrow> False
      | Some tbl \<Rightarrow>
          (case tbl uname of
             Some stored_hash \<Rightarrow> stored_hash = hash_password pw
           | None \<Rightarrow> False))"

section \<open>The dispatcher: \<open>server/dispatcher.py\<close>\<close>

record SyncRecord =
  sync_id :: string
  client_ip :: string
  username :: string
  request_time :: timestamp
  confirmed :: bool
  acknowledged :: bool
  confirmation_time :: "timestamp option"
  acknowledgment_time :: "timestamp option"

definition SyncRecord_init :: "string \<Rightarrow> string \<Rightarrow> string \<Rightarrow> timestamp \<Rightarrow> SyncRecord" where
  "SyncRecord_init sid ip uname t =
     \<lparr>sync_id = sid, client_ip = ip, username = uname, request_time = t,
      confirmed = False, acknowledged = False,
      confirmation_time = None, acknowledgment_time = None\<rparr>"

text \<open>
  The dispatcher holds two paths; the model holds what is found there: \<open>users_file\<close>
  is the table of the users file and \<open>log_file\<close> the messages handed to
  \<open>logging.info\<close>, oldest first.
\<close>

record Dispatcher =
  file_handler :: FileHandler
  users_file :: "(string \<rightharpoonup> string) option"
  log_file :: "string list"
  sync_records :: "string \<rightharpoonup> SyncRecord"

definition Dispatcher_init ::
  "string \<Rightarrow> (string \<times> timestamp) option \<Rightarrow> (string \<rightharpoonup> string) option \<Rightarrow> env \<Rightarrow> Dispatcher" where
  "Dispatcher_init path found users e =
     \<lparr>file_handler = FileHandler_init path found e, users_file = users,
      log_file = [], sync_records = Map.empty\<rparr>"

definition log_sync_attempt ::
  "Dispatcher \<Rightarrow> string \<Rightarrow> string \<Rightarrow> string \<Rightarrow> bool \<Rightarrow> string option \<Rightarrow> Dispatcher" where
  "log_sync_attempt d ip uname operation ok err =
     (let status = (if ok then ''SUCCESS'' else ''FAILED'');
          message = ''SYNC '' @ status @ '' - IP: '' @ ip @ '' - User: '' @ uname
                      @ '' - Operation: '' @ operation;
          message' = (case err of
                        None \<Rightarrow> message
                      | Some t \<Rightarrow> if t = [] then message else message @ '' - Error: '' @ t)
      in d\<lparr>log_file := log_file d @ [message']\<rparr>)"

definition authenticate :: "Dispatcher \<Rightarrow> string \<Rightarrow> string \<Rightarrow> string \<Rightarrow> bool \<times> Dispatcher" where
  "authenticate d uname pw ip =
     (let is_authenticated = verify_user uname pw (users_file d)
      in (is_authenticated,
          if \<not> is_authenticated
          then log_sync_attempt d ip uname ''authentication'' False (Some ''Invalid credentials'')
          else d))"

subsection \<open>The remotely invokable methods\<close>

text \<open>
  Each method takes the dispatcher and the environment of the call and returns the
  response with the dispatcher as the call leaves it.
\<close>

definition get_file_content ::
  "Dispatcher \<Rightarrow> env \<Rightarrow> string \<Rightarrow> string \<Rightarrow> string \<Rightarrow> string \<Rightarrow> response \<times> Dispatcher" where
  "get_file_content d e uname pw ip protocol =
     (case authenticate d uname pw ip of
        (False, d1) \<Rightarrow> (create_response e 0 False None (Some ''Authentication failed''), d1)
      | (True, d1) \<Rightarrow>
          (case get_file_status (file_handler d1) e of
             Inl msg \<Rightarrow>
               (create_response e 0 False None (Some (''Error getting file content: '' @ msg)),
                log_sync_attempt d1 ip uname (''get_file_content ('' @ protocol @ '')'') False (Some msg))
           | Inr (file_status, fh) \<Rightarrow>
               (let sid = uuid4 e;
                    d2 = log_sync_attempt (d1\<lparr>file_handler := fh\<rparr>) ip uname
                           (''get_file_content ('' @ protocol @ '')'') True None;
                    tracked = (protocol = ''RR'' \<or> protocol = ''RRA'');
                    d3 = (if tracked
                          then d2\<lparr>sync_records :=
                                  (sync_records d2)(sid \<mapsto> SyncRecord_init sid ip uname (time_time e 0))\<rparr>
                          else d2)
                in (create_sync_response e (if tracked then 1 else 0) True
                      (Some (content file_status)) (Some (version file_status)) (Some sid) None,
                    d3))))"

definition check_master_version ::
  "Dispatcher \<Rightarrow> env \<Rightarrow> string \<Rightarrow> string \<Rightarrow> string \<Rightarrow> response \<times> Dispatcher" where
  "check_master_version d e uname pw ip =
     (case authenticate d uname pw ip of
        (False, d1) \<Rightarrow> (create_response e 0 False None (Some ''Authentication failed''), d1)
      | (True, d1) \<Rightarrow>
          (case get_version (file_handler d1) e of
             Inl msg \<Rightarrow>
               (create_response e 0 False None (Some (''Error checking version: '' @ msg)),
                log_sync_attempt d1 ip uname ''check_master_version'' False (Some msg))
           | Inr (ver, fh1) \<Rightarrow>
               (case get_last_modified fh1 e of
                  Inl msg \<Rightarrow>
                    (create_response e 0 False None (Some (''Error checking version: '' @ msg)),
                     log_sync_attempt (d1\<lparr>file_handler := fh1\<rparr>) ip uname
                       ''check_master_version'' False (Some msg))
                | Inr (modified, fh2) \<Rightarrow>
                    (create_response e 0 True
                       (Some [''version'' \<mapsto> Str ver, ''last_modified'' \<mapsto> Num modified]) None,
                     log_sync_attempt (d1\<lparr>file_handler := fh2\<rparr>) ip uname
                       ''check_master_version'' True None))))"

definition confirm_sync ::
  "Dispatcher \<Rightarrow> env \<Rightarrow> string \<Rightarrow> string \<Rightarrow> string \<Rightarrow> string \<Rightarrow> response \<times> Dispatcher" where
  "confirm_sync d e uname pw sid ip =
     (case authenticate d uname pw ip of
        (False, d1) \<Rightarrow> (create_response e 0 False None (Some ''Authentication failed''), d1)
      | (True, d1) \<Rightarrow>
          (case sync_records d1 sid of
             None \<Rightarrow>
               (create_response e 0 False None (Some (''Unknown sync ID: '' @ sid)),
                log_sync_attempt d1 ip uname ''confirm_sync'' False (Some (''Unknown sync ID: '' @ sid)))
           | Some record \<Rightarrow>
               (let record' = record\<lparr>confirmed := True, confirmation_time := Some (time_time e 0)\<rparr>;
                    d2 = d1\<lparr>sync_records := (sync_records d1)(sid \<mapsto> record')\<rparr>
                in (create_response e 1 True
                      (Some [''sync_id'' \<mapsto> Str sid, ''confirmed'' \<mapsto> Bool True]) None,
                    log_sync_attempt d2 ip uname ''confirm_sync'' True None))))"

definition acknowledge_sync ::
  "Dispatcher \<Rightarrow> env \<Rightarrow> string \<Rightarrow> string \<Rightarrow> string \<Rightarrow> string \<Rightarrow> response \<times> Dispatcher" where
  "acknowledge_sync d e uname pw sid ip =
     (case authenticate d uname pw ip of
        (False, d1) \<Rightarrow> (create_response e 0 False None (Some ''Authentication failed''), d1)
      | (True, d1) \<Rightarrow>
          (case sync_records d1 sid of
             None \<Rightarrow>
               (create_response e 0 False None (Some (''Unknown sync ID: '' @ sid)),
                log_sync_attempt d1 ip uname ''acknowledge_sync'' False
                  (Some (''Unknown sync ID: '' @ sid)))
           | Some record \<Rightarrow>
               (let record' = record\<lparr>acknowledged := True,
                                      acknowledgment_time := Some (time_time e 0)\<rparr>;
                    d2 = d1\<lparr>sync_records := (sync_records d1)(sid \<mapsto> record')\<rparr>
                in (create_response e 1 True
                      (Some [''sync_id'' \<mapsto> Str sid, ''acknowledged'' \<mapsto> Bool True]) None,
                    log_sync_attempt d2 ip uname ''acknowledge_sync'' True None))))"

subsection \<open>Dispatch by name: \<open>handle_request\<close>\<close>












subsection \<open>The HTTP endpoints: \<open>server/threads.py\<close>\<close>


section \<open>Sequences of calls\<close>

text \<open>
  A request names one of the four remote methods with its arguments; \<open>run\<close> serves a
  list of requests in order, each with the environment and the client address of its call.
\<close>

datatype request =
    GetFileContent string string string
  | CheckMasterVersion string string
  | ConfirmSync string string string
  | AcknowledgeSync string string string

fun perform :: "Dispatcher \<Rightarrow> env \<Rightarrow> string \<Rightarrow> request \<Rightarrow> response \<times> Dispatcher" where
  "perform d e ip (GetFileContent uname pw protocol) = get_file_content d e uname pw ip protocol"
| "perform d e ip (CheckMasterVersion uname pw) = check_master_version d e uname pw ip"
| "perform d e ip (ConfirmSync uname pw sid) = confirm_sync d e uname pw sid ip"
| "perform d e ip (AcknowledgeSync uname pw sid) = acknowledge_sync d e uname pw sid ip"

fun run :: "Dispatcher \<Rightarrow> (env \<times> string \<times> request) list \<Rightarrow> Dispatcher" where
  "run d [] = d"
| "run d ((e, ip, rq) # calls) = run (snd (perform d e ip rq)) calls"

text \<open>
  \<open>uuid.uuid4()\<close> is taken to draw an id that the ledger does not hold yet:
  \<open>fresh_ids d calls\<close> says so of every \<open>get_file_content\<close> in the list.
\<close>

fun draws_uuid :: "request \<Rightarrow> bool" where
  "draws_uuid (GetFileContent uname pw protocol) = True"
| "draws_uuid rq = False"

fun fresh_ids :: "Dispatcher \<Rightarrow> (env \<times> string \<times> request) list \<Rightarrow> bool" where
  "fresh_ids d [] = True"
| "fresh_ids d ((e, ip, rq) # calls) =
     ((draws_uuid rq \<longrightarrow> sync_records d (uuid4 e) = None)
      \<and> fresh_ids (snd (perform d e ip rq)) calls)"

definition data_field :: "response \<Rightarrow> string \<Rightarrow> pyval option" where
  "data_field r k = (case data r of None \<Rightarrow> None | Some dd \<Rightarrow> dd k)"

subsection \<open>A running example\<close>

text \<open>
  A server started on a master file holding \<open>hello\<close>, with the default user that
  \<open>server_main.py\<close> creates, and the environment of a call made at time \<open>t\<close> that
  draws the id \<open>u\<close>, under an interpreter whose objects inherit the attributes of
  CPython 3.11.
\<close>

definition example_object_attributes :: "(string \<times> bool) list" where
  "example_object_attributes =
     [(''__class__'', True), (''__delattr__'', True), (''__dict__'', False), (''__dir__'', True),
      (''__doc__'', False), (''__eq__'', True), (''__format__'', True), (''__ge__'', True),
      (''__getattribute__'', True), (''__getstate__'', True), (''__gt__'', True),
      (''__hash__'', True), (''__init_subclass__'', True), (''__le__'', True), (''__lt__'', True),
      (''__module__'', False), (''__ne__'', True), (''__new__'', True), (''__reduce__'', True),
      (''__reduce_ex__'', True), (''__repr__'', True), (''__setattr__'', True),
      (''__sizeof__'', True), (''__str__'', True), (''__subclasshook__'', True),
      (''__weakref__'', False)]"

definition example_env :: "timestamp \<Rightarrow> string \<Rightarrow> env" where
  "example_env t u =
     \<lparr>time_time = (\<lambda>k. t + real k), uuid4 = u, io_error = None, fs_clock = t,
      type_error = ''unexpected keyword argument'',
      object_attributes = map_of example_object_attributes\<rparr>"

definition example_dispatcher :: Dispatcher where
  "example_dispatcher =
     Dispatcher_init ''data/master.txt'' (Some (''hello'', 50))
       (Some [''admin'' \<mapsto> hash_password ''password'']) (example_env 60 ''boot'')"

definition example_opened :: Dispatcher where
  "example_opened =
     snd (get_file_content example_dispatcher (example_env 100 ''id-1'')
            ''admin'' ''password'' ''10.0.0.7'' ''RR'')"

definition example_confirmed :: Dispatcher where
  "example_confirmed =
     snd (confirm_sync example_opened (example_env 200 ''id-2'')
            ''admin'' ''password'' ''id-1'' ''10.0.0.7'')"

definition collision_left :: string where
  "collision_left = ''TEXTCOLLBYfGiJUETHQ4hAcKSMd5zYpgqf1YRDhkmxHkhPWptrkoyz28wnI9V0aHeAuaKnak''"

definition collision_right :: string where
  "collision_right = ''TEXTCOLLBYfGiJUETHQ4hEcKSMd5zYpgqf1YRDhkmxHkhPWptrkoyz28wnI9V0aHeAuaKnak''"

section \<open>Auxiliary facts\<close>

lemma authenticate_accepts:
  "verify_user uname pw (users_file d) \<Longrightarrow> authenticate d uname pw ip = (True, d)"
  by (simp add: authenticate_def)

lemma authenticate_rejects:
  "\<not> verify_user uname pw (users_file d) \<Longrightarrow>
   authenticate d uname pw ip =
     (False, log_sync_attempt d ip uname ''authentication'' False (Some ''Invalid credentials''))"
  by (simp add: authenticate_def)

lemma log_sync_attempt_frame [simp]:
  "sync_records (log_sync_attempt d ip u opn ok err) = sync_records d"
  "file_handler (log_sync_attempt d ip u opn ok err) = file_handler d"
  "users_file (log_sync_attempt d ip u opn ok err) = users_file d"
  by (simp_all add: log_sync_attempt_def Let_def)

lemma get_file_status_reads:
  assumes "io_error e = None"
  shows "\<exists>st fh. get_file_status (file_handler d) e = Inr (st, fh)"
  using assms
  by (cases "master_file (file_handler d)")
     (auto simp: get_file_status_def get_content_def get_last_modified_def ensure_file_exists_def)

lemma get_file_content_granted:
  assumes "verify_user uname pw (users_file d)"
    and "get_file_status (file_handler d) e = Inr (st, fh)"
  shows "get_file_content d e uname pw ip protocol =
     (create_sync_response e (if protocol = ''RR'' \<or> protocol = ''RRA'' then 1 else 0) True
        (Some (content st)) (Some (version st)) (Some (uuid4 e)) None,
      (if protocol = ''RR'' \<or> protocol = ''RRA''
       then (log_sync_attempt (d\<lparr>file_handler := fh\<rparr>) ip uname
               (''get_file_content ('' @ protocol @ '')'') True None)
            \<lparr>sync_records := (sync_records d)(uuid4 e \<mapsto>
                 SyncRecord_init (uuid4 e) ip uname (time_time e 0))\<rparr>
       else log_sync_attempt (d\<lparr>file_handler := fh\<rparr>) ip uname
              (''get_file_content ('' @ protocol @ '')'') True None))"
  using assms by (simp add: get_file_content_def authenticate_accepts Let_def)

lemma sync_id_in_sync_response:
  "data_field (create_sync_response e k ok txt ver (Some sid) err) ''sync_id'' = Some (Str sid)"
  by (simp add: data_field_def create_sync_response_def create_response_def Let_def
           split: option.split)

lemma example_users:
  "users_file example_dispatcher = Some [''admin'' \<mapsto> hash_password ''password'']"
  by (simp add: example_dispatcher_def Dispatcher_init_def)

lemma example_admin: "verify_user ''admin'' ''password'' (users_file example_dispatcher)"
  by (simp add: example_users verify_user_def)

lemma example_ledger: "sync_records example_dispatcher = Map.empty"
  by (simp add: example_dispatcher_def Dispatcher_init_def)

lemma example_io [simp]: "io_error (example_env t u) = None" "uuid4 (example_env t u) = u"
  "time_time (example_env t u) k = t + real k"
  by (simp_all add: example_env_def)

lemma get_file_content_served:
  assumes "verify_user uname pw (users_file d)" and "io_error e = None"
  shows "data_field (fst (get_file_content d e uname pw ip protocol)) ''sync_id'' = Some (Str (uuid4 e))"
    and "sync_records (snd (get_file_content d e uname pw ip protocol)) =
           (if protocol = ''RR'' \<or> protocol = ''RRA''
            then (sync_records d)(uuid4 e \<mapsto> SyncRecord_init (uuid4 e) ip uname (time_time e 0))
            else sync_records d)"
proof -
  obtain st fh where "get_file_status (file_handler d) e = Inr (st, fh)"
    using get_file_status_reads [OF assms(2)] by blast
  from get_file_content_granted [OF assms(1) this]
  show "data_field (fst (get_file_content d e uname pw ip protocol)) ''sync_id'' = Some (Str (uuid4 e))"
    and "sync_records (snd (get_file_content d e uname pw ip protocol)) =
           (if protocol = ''RR'' \<or> protocol = ''RRA''
            then (sync_records d)(uuid4 e \<mapsto> SyncRecord_init (uuid4 e) ip uname (time_time e 0))
            else sync_records d)"
    by (simp_all add: sync_id_in_sync_response)
qed

lemma example_opened_ledger:
  "sync_records example_opened = [''id-1'' \<mapsto> SyncRecord_init ''id-1'' ''10.0.0.7'' ''admin'' 100]"
  by (simp add: example_opened_def example_ledger
        get_file_content_served(2) [OF example_admin, of "example_env 100 ''id-1''"])

lemma get_file_content_users [simp]:
  "users_file (snd (get_file_content d e uname pw ip protocol)) = users_file d"
  by (simp add: get_file_content_def authenticate_def Let_def split: sum.split prod.split)

lemma confirm_sync_users [simp]:
  "users_file (snd (confirm_sync d e uname pw sid ip)) = users_file d"
  by (simp add: confirm_sync_def authenticate_def Let_def split: option.split)

lemma acknowledge_sync_users [simp]:
  "users_file (snd (acknowledge_sync d e uname pw sid ip)) = users_file d"
  by (simp add: acknowledge_sync_def authenticate_def Let_def split: option.split)

lemma check_master_version_users [simp]:
  "users_file (snd (check_master_version d e uname pw ip)) = users_file d"
  by (simp add: check_master_version_def authenticate_def Let_def split: sum.split prod.split)

lemma example_opened_admin: "verify_user ''admin'' ''password'' (users_file example_opened)"
  by (simp add: example_opened_def example_admin)

lemma example_confirmed_admin: "verify_user ''admin'' ''password'' (users_file example_confirmed)"
  by (simp add: example_confirmed_def example_opened_admin)

lemma confirm_sync_known:
  assumes "verify_user uname pw (users_file d)" and "sync_records d sid = Some r"
  shows "confirm_sync d e uname pw sid ip =
     (create_response e 1 True (Some [''sync_id'' \<mapsto> Str sid, ''confirmed'' \<mapsto> Bool True]) None,
      log_sync_attempt
        (d\<lparr>sync_records := (sync_records d)(sid \<mapsto>
              r\<lparr>confirmed := True, confirmation_time := Some (time_time e 0)\<rparr>)\<rparr>)
        ip uname ''confirm_sync'' True None)"
  using assms by (simp add: confirm_sync_def authenticate_accepts Let_def)


lemma example_confirmed_ledger:
  "sync_records example_confirmed =
     [''id-1'' \<mapsto> (SyncRecord_init ''id-1'' ''10.0.0.7'' ''admin'' 100)
                    \<lparr>confirmed := True, confirmation_time := Some 200\<rparr>]"
  by (simp add: example_confirmed_def
        confirm_sync_known [OF example_opened_admin, of "''id-1''" "SyncRecord_init ''id-1'' ''10.0.0.7'' ''admin'' 100"]
        example_opened_ledger)

lemma example_mallory: "\<not> verify_user ''mallory'' ''letmein'' (users_file example_dispatcher)"
  by (simp add: example_users verify_user_def)


lemma perform_keeps_flags:
  assumes "draws_uuid rq \<longrightarrow> sync_records d (uuid4 e) = None"
    and "sync_records d sid = Some r"
  shows "\<exists>r'. sync_records (snd (perform d e ip rq)) sid = Some r'
            \<and> (confirmed r \<longrightarrow> confirmed r') \<and> (acknowledged r \<longrightarrow> acknowledged r')"
proof (cases rq)
  case (GetFileContent uname pw protocol)
  with assms have ne: "uuid4 e \<noteq> sid" by auto
  show ?thesis using assms(2) ne GetFileContent
    by (auto simp: get_file_content_def authenticate_def Let_def split: sum.split prod.split)
next
  case (CheckMasterVersion uname pw)
  then show ?thesis using assms(2)
    by (auto simp: check_master_version_def authenticate_def Let_def split: sum.split prod.split)
next
  case (ConfirmSync uname pw s)
  then show ?thesis using assms(2)
    by (auto simp: confirm_sync_def authenticate_def Let_def split: option.split)
next
  case (AcknowledgeSync uname pw s)
  then show ?thesis using assms(2)
    by (auto simp: acknowledge_sync_def authenticate_def Let_def split: option.split)
qed

lemma run_keeps_flags:
  assumes "fresh_ids d calls" and "sync_records d sid = Some r"
  shows "\<exists>r'. sync_records (run d calls) sid = Some r'
            \<and> (confirmed r \<longrightarrow> confirmed r') \<and> (acknowledged r \<longrightarrow> acknowledged r')"
  using assms
proof (induction calls arbitrary: d r)
  case Nil
  then show ?case by simp
next
  case (Cons c calls)
  obtain e ip rq where c: "c = (e, ip, rq)" by (cases c) auto
  from Cons.prems c have fresh: "draws_uuid rq \<longrightarrow> sync_records d (uuid4 e) = None"
    and rest: "fresh_ids (snd (perform d e ip rq)) calls" by simp_all
  from perform_keeps_flags [OF fresh Cons.prems(2)]
  obtain r1 where r1: "sync_records (snd (perform d e ip rq)) sid = Some r1"
    and m: "confirmed r \<longrightarrow> confirmed r1" "acknowledged r \<longrightarrow> acknowledged r1" by blast
  from Cons.IH [OF rest r1]
  obtain r' where "sync_records (run (snd (perform d e ip rq)) calls) sid = Some r'"
    and "confirmed r1 \<longrightarrow> confirmed r'" "acknowledged r1 \<longrightarrow> acknowledged r'" by blast
  with m c show ?case by auto
qed

text \<open>
  Four digests, computed from the definitions above. They agree with \<open>hashlib\<close>.
\<close>

lemma sha_password:
  "hash_password ''password'' = ''5e884898da28047151d0e56f8dc6292773603d0d6aabbdd62a11ef721d1542d8''"
  unfolding hash_password_def by code_simp

lemma sha_wrong:
  "hash_password ''wrong'' = ''8810ad581e59f2bc3928b261707a71308f7e139eb04820366dc4d5c18d980225''"
  unfolding hash_password_def by code_simp

lemma md5_collision_left: "md5_hexdigest collision_left = ''faad49866e9498fc1719f5289e7a0269''"
  by code_simp

lemma md5_collision_right: "md5_hexdigest collision_right = ''faad49866e9498fc1719f5289e7a0269''"
  by code_simp

lemma universal_newlines_collision:
  "universal_newlines collision_left = collision_left"
  "universal_newlines collision_right = collision_right"
  by (simp_all add: collision_left_def collision_right_def)

lemma get_version_after_update:
  assumes "io_error e = None" and "io_error e' = None"
  shows "map_sum id fst (get_version (snd (update_content fh txt e)) e')
           = Inr (md5_hexdigest (universal_newlines txt))"
  using assms by (simp add: update_content_def get_version_def get_content_def)

section \<open>The sync id in the response of \<open>get_file_content\<close>\<close>

text \<open>
  Claim C1, as amended. For every authenticated call to \<open>get_file_content\<close> whose
  file read succeeds, the response data carries a \<open>sync_id\<close>, the id drawn by the
  call, for every protocol, \<open>R\<close> included. What depends on the protocol is the ledger:
  a record is stored under that id if and only if the protocol is \<open>RR\<close> or \<open>RRA\<close>.
\<close>

theorem get_file_content_sync_id_any_protocol:
  assumes "verify_user uname pw (users_file d)" and "io_error e = None"
  shows "data_field (fst (get_file_content d e uname pw ip protocol)) ''sync_id'' = Some (Str (uuid4 e))
       \<and> sync_records (snd (get_file_content d e uname pw ip protocol)) =
           (if protocol = ''RR'' \<or> protocol = ''RRA''
            then (sync_records d)(uuid4 e \<mapsto> SyncRecord_init (uuid4 e) ip uname (time_time e 0))
            else sync_records d)"
  using assms get_file_content_served [of uname pw d e ip protocol] by simp

theorem get_file_content_sync_id_any_protocol_witness:
  "verify_user ''admin'' ''password'' (users_file example_dispatcher)
   \<and> io_error (example_env 100 ''id-1'') = None
   \<and> data_field (fst (get_file_content example_dispatcher (example_env 100 ''id-1'')
                        ''admin'' ''password'' ''10.0.0.7'' ''RRA'')) ''sync_id'' = Some (Str ''id-1'')
   \<and> sync_records (snd (get_file_content example_dispatcher (example_env 100 ''id-1'')
                        ''admin'' ''password'' ''10.0.0.7'' ''RRA'')) ''id-1''
       = Some (SyncRecord_init ''id-1'' ''10.0.0.7'' ''admin'' 100)"
  using get_file_content_sync_id_any_protocol
          [of "''admin''" "''password''" example_dispatcher "example_env 100 ''id-1''"
              "''10.0.0.7''" "''RRA''"]
  by (simp add: example_admin)

text \<open>
  Claim C1 as stated fails: an authenticated call with protocol \<open>R\<close> succeeds and
  its response data holds the \<open>sync_id\<close> drawn by the call.
\<close>

theorem get_file_content_R_carries_sync_id:
  "verify_user ''admin'' ''password'' (users_file example_dispatcher)
   \<and> success (fst (get_file_content example_dispatcher (example_env 100 ''id-1'')
                      ''admin'' ''password'' ''10.0.0.7'' ''R''))
   \<and> data_field (fst (get_file_content example_dispatcher (example_env 100 ''id-1'')
                        ''admin'' ''password'' ''10.0.0.7'' ''R'')) ''sync_id'' = Some (Str ''id-1'')"
proof -
  obtain st fh where "get_file_status (file_handler example_dispatcher) (example_env 100 ''id-1'') = Inr (st, fh)"
    using get_file_status_reads [of "example_env 100 ''id-1''" example_dispatcher] by auto
  from get_file_content_granted [OF example_admin this]
  show ?thesis
    by (simp add: example_admin sync_id_in_sync_response)
       (simp add: create_sync_response_def create_response_def Let_def)
qed

section \<open>Confirming twice\<close>

text \<open>
  Claim C2, as amended. Calling \<open>confirm_sync\<close> on a record that is already confirmed
  succeeds without error; the \<open>confirmed\<close> flag stays true and every other field of the
  record is retained, except that \<open>confirmation_time\<close> becomes the time of this call.
\<close>

theorem confirm_sync_again_restamps:
  assumes "verify_user uname pw (users_file d)"
    and "sync_records d sid = Some r" and "confirmed r"
  shows "fst (confirm_sync d e uname pw sid ip) =
           create_response e 1 True (Some [''sync_id'' \<mapsto> Str sid, ''confirmed'' \<mapsto> Bool True]) None
       \<and> sync_records (snd (confirm_sync d e uname pw sid ip)) =
           (sync_records d)(sid \<mapsto> r\<lparr>confirmation_time := Some (time_time e 0)\<rparr>)"
proof -
  have "r\<lparr>confirmed := True\<rparr> = r"
    using assms(3) by (cases r) simp
  then have "r\<lparr>confirmed := True, confirmation_time := Some (time_time e 0)\<rparr>
               = r\<lparr>confirmation_time := Some (time_time e 0)\<rparr>"
    by simp
  with assms(1,2) show ?thesis by (simp add: confirm_sync_known)
qed

theorem confirm_sync_again_restamps_witness:
  "verify_user ''admin'' ''password'' (users_file example_confirmed)
   \<and> map_option confirmed (sync_records example_confirmed ''id-1'') = Some True
   \<and> success (fst (confirm_sync example_confirmed (example_env 300 ''id-3'')
                      ''admin'' ''password'' ''id-1'' ''10.0.0.7''))
   \<and> map_option confirmed
        (sync_records (snd (confirm_sync example_confirmed (example_env 300 ''id-3'')
                             ''admin'' ''password'' ''id-1'' ''10.0.0.7'')) ''id-1'') = Some True
   \<and> map_option confirmation_time
        (sync_records (snd (confirm_sync example_confirmed (example_env 300 ''id-3'')
                             ''admin'' ''password'' ''id-1'' ''10.0.0.7'')) ''id-1'') = Some (Some 300)"
  using confirm_sync_again_restamps
          [of "''admin''" "''password''" example_confirmed "''id-1''"
              "(SyncRecord_init ''id-1'' ''10.0.0.7'' ''admin'' 100)
                 \<lparr>confirmed := True, confirmation_time := Some 200\<rparr>"
              "example_env 300 ''id-3''" "''10.0.0.7''"]
  by (simp add: example_confirmed_admin example_confirmed_ledger create_response_def SyncRecord_init_def)

text \<open>
  Claim C2 as stated fails: the record confirmed at time 200 carries the confirmation
  time 300 after a second \<open>confirm_sync\<close> made at time 300.
\<close>

theorem second_confirm_sync_replaces_timestamp:
  "map_option confirmed (sync_records example_confirmed ''id-1'') = Some True
   \<and> map_option confirmation_time (sync_records example_confirmed ''id-1'') = Some (Some 200)
   \<and> map_option confirmation_time
        (sync_records (snd (confirm_sync example_confirmed (example_env 300 ''id-3'')
                             ''admin'' ''password'' ''id-1'' ''10.0.0.7'')) ''id-1'') = Some (Some 300)"
  by (simp add: example_confirmed_ledger SyncRecord_init_def
        confirm_sync_known [OF example_confirmed_admin, of "''id-1''"
           "(SyncRecord_init ''id-1'' ''10.0.0.7'' ''admin'' 100)
                 \<lparr>confirmed := True, confirmation_time := Some 200\<rparr>"])

section \<open>Authentication failure\<close>

text \<open>
  Claim C5. When the credentials are not accepted, each of the four remote methods
  returns a failure response whose error is \<open>Authentication failed\<close>, and the call
  changes neither the ledger \<open>sync_records\<close> nor the master file of the file handler.
  (The refusal is written to the log.)
\<close>

theorem authentication_failure_changes_nothing:
  assumes "\<not> verify_user uname pw (users_file d)"
  shows "fst (get_file_content d e uname pw ip protocol)
           = create_response e 0 False None (Some ''Authentication failed'')
       \<and> fst (check_master_version d e uname pw ip)
           = create_response e 0 False None (Some ''Authentication failed'')
       \<and> fst (confirm_sync d e uname pw sid ip)
           = create_response e 0 False None (Some ''Authentication failed'')
       \<and> fst (acknowledge_sync d e uname pw sid ip)
           = create_response e 0 False None (Some ''Authentication failed'')
       \<and> sync_records (snd (get_file_content d e uname pw ip protocol)) = sync_records d
       \<and> sync_records (snd (check_master_version d e uname pw ip)) = sync_records d
       \<and> sync_records (snd (confirm_sync d e uname pw sid ip)) = sync_records d
       \<and> sync_records (snd (acknowledge_sync d e uname pw sid ip)) = sync_records d
       \<and> file_handler (snd (get_file_content d e uname pw ip protocol)) = file_handler d
       \<and> file_handler (snd (check_master_version d e uname pw ip)) = file_handler d
       \<and> file_handler (snd (confirm_sync d e uname pw sid ip)) = file_handler d
       \<and> file_handler (snd (acknowledge_sync d e uname pw sid ip)) = file_handler d"
  using assms
  by (simp add: get_file_content_def check_master_version_def confirm_sync_def
        acknowledge_sync_def authenticate_rejects)

theorem authentication_failure_changes_nothing_witness:
  "\<not> verify_user ''mallory'' ''letmein'' (users_file example_dispatcher)
   \<and> error (fst (get_file_content example_dispatcher (example_env 100 ''id-1'')
                    ''mallory'' ''letmein'' ''10.0.0.7'' ''RR'')) = Some ''Authentication failed''
   \<and> success (fst (confirm_sync example_dispatcher (example_env 100 ''id-1'')
                    ''mallory'' ''letmein'' ''id-1'' ''10.0.0.7'')) = False
   \<and> sync_records (snd (get_file_content example_dispatcher (example_env 100 ''id-1'')
                    ''mallory'' ''letmein'' ''10.0.0.7'' ''RR'')) = Map.empty
   \<and> file_handler (snd (acknowledge_sync example_dispatcher (example_env 100 ''id-1'')
                    ''mallory'' ''letmein'' ''id-1'' ''10.0.0.7'')) = file_handler example_dispatcher"
  using authentication_failure_changes_nothing
          [of "''mallory''" "''letmein''" example_dispatcher "example_env 100 ''id-1''"
              "''10.0.0.7''" "''RR''" "''id-1''"]
  by (simp add: example_mallory example_ledger create_response_def)

section \<open>Confirming or acknowledging an unknown sync id\<close>

text \<open>
  Claim C6. For a \<open>sync_id\<close> that the ledger does not hold, an authenticated
  \<open>confirm_sync\<close> or \<open>acknowledge_sync\<close> returns a failure response whose error
  reports the unknown sync id, and leaves the ledger as it was.
\<close>

theorem unknown_sync_id_rejected:
  assumes "verify_user uname pw (users_file d)" and "sync_records d sid = None"
  shows "fst (confirm_sync d e uname pw sid ip)
           = create_response e 0 False None (Some (''Unknown sync ID: '' @ sid))
       \<and> sync_records (snd (confirm_sync d e uname pw sid ip)) = sync_records d
       \<and> fst (acknowledge_sync d e uname pw sid ip)
           = create_response e 0 False None (Some (''Unknown sync ID: '' @ sid))
       \<and> sync_records (snd (acknowledge_sync d e uname pw sid ip)) = sync_records d"
  using assms by (simp add: confirm_sync_def acknowledge_sync_def authenticate_accepts)

theorem unknown_sync_id_rejected_witness:
  "verify_user ''admin'' ''password'' (users_file example_dispatcher)
   \<and> sync_records example_dispatcher ''id-9'' = None
   \<and> success (fst (confirm_sync example_dispatcher (example_env 100 ''id-1'')
                     ''admin'' ''password'' ''id-9'' ''10.0.0.7'')) = False
   \<and> error (fst (confirm_sync example_dispatcher (example_env 100 ''id-1'')
                     ''admin'' ''password'' ''id-9'' ''10.0.0.7'')) = Some ''Unknown sync ID: id-9''
   \<and> error (fst (acknowledge_sync example_dispatcher (example_env 100 ''id-1'')
                     ''admin'' ''password'' ''id-9'' ''10.0.0.7'')) = Some ''Unknown sync ID: id-9''
   \<and> sync_records (snd (confirm_sync example_dispatcher (example_env 100 ''id-1'')
                     ''admin'' ''password'' ''id-9'' ''10.0.0.7'')) = Map.empty"
  using unknown_sync_id_rejected
          [of "''admin''" "''password''" example_dispatcher "''id-9''"
              "example_env 100 ''id-1''" "''10.0.0.7''"]
  by (simp add: example_admin example_ledger create_response_def)

section \<open>Protocol \<open>R\<close> and the ledger\<close>

text \<open>
  Claim C7. An authenticated \<open>get_file_content\<close> with protocol \<open>R\<close> leaves
  \<open>sync_records\<close> unchanged, and a following authenticated \<open>confirm_sync\<close> with
  the id of that response fails with an unknown sync id. The id is the one drawn by the
  call, taken to be an id that the ledger does not hold.
\<close>

theorem get_file_content_R_opens_nothing:
  assumes "verify_user uname pw (users_file d)" and "io_error e = None"
    and "sync_records d (uuid4 e) = None"
    and "verify_user uname' pw' (users_file d)"
  shows "sync_records (snd (get_file_content d e uname pw ip ''R'')) = sync_records d
       \<and> data_field (fst (get_file_content d e uname pw ip ''R'')) ''sync_id'' = Some (Str (uuid4 e))
       \<and> fst (confirm_sync (snd (get_file_content d e uname pw ip ''R'')) e' uname' pw' (uuid4 e) ip')
           = create_response e' 0 False None (Some (''Unknown sync ID: '' @ uuid4 e))"
proof -
  let ?d' = "snd (get_file_content d e uname pw ip ''R'')"
  have led: "sync_records ?d' = sync_records d"
    and sid: "data_field (fst (get_file_content d e uname pw ip ''R'')) ''sync_id'' = Some (Str (uuid4 e))"
    using get_file_content_served [OF assms(1,2), of ip "''R''"] by simp_all
  have "verify_user uname' pw' (users_file ?d')" using assms(4) by simp
  moreover have "sync_records ?d' (uuid4 e) = None" using led assms(3) by simp
  ultimately have "fst (confirm_sync ?d' e' uname' pw' (uuid4 e) ip')
           = create_response e' 0 False None (Some (''Unknown sync ID: '' @ uuid4 e))"
    by (simp add: confirm_sync_def authenticate_accepts)
  with led sid show ?thesis by simp
qed

theorem get_file_content_R_opens_nothing_witness:
  "verify_user ''admin'' ''password'' (users_file example_dispatcher)
   \<and> io_error (example_env 100 ''id-1'') = None
   \<and> sync_records example_dispatcher (uuid4 (example_env 100 ''id-1'')) = None
   \<and> sync_records (snd (get_file_content example_dispatcher (example_env 100 ''id-1'')
                          ''admin'' ''password'' ''10.0.0.7'' ''R'')) = Map.empty
   \<and> error (fst (confirm_sync
                    (snd (get_file_content example_dispatcher (example_env 100 ''id-1'')
                            ''admin'' ''password'' ''10.0.0.7'' ''R''))
                    (example_env 200 ''id-2'') ''admin'' ''password'' ''id-1'' ''10.0.0.7''))
       = Some ''Unknown sync ID: id-1''"
  using get_file_content_R_opens_nothing
          [of "''admin''" "''password''" example_dispatcher "example_env 100 ''id-1''"
              "''admin''" "''password''" "''10.0.0.7''" "example_env 200 ''id-2''" "''10.0.0.7''"]
  by (simp add: example_admin example_ledger create_response_def)

section \<open>Confirmation and acknowledgment on any opened record\<close>




section \<open>Monotonic flags\<close>

text \<open>
  Claim C8. A record opened by \<open>get_file_content\<close> starts with \<open>confirmed\<close> and
  \<open>acknowledged\<close> false, and no sequence of calls of the four remote methods turns
  a flag of a record of the ledger from true back to false: the record stays in the
  ledger and a flag that is true stays true. Every \<open>get_file_content\<close> of the sequence
  is taken to draw an id that the ledger does not hold.
\<close>

theorem sync_flags_monotonic:
  "(verify_user uname pw (users_file d) \<and> io_error e = None
      \<and> (protocol = ''RR'' \<or> protocol = ''RRA'')
    \<longrightarrow> map_option confirmed
          (sync_records (snd (get_file_content d e uname pw ip protocol)) (uuid4 e)) = Some False
      \<and> map_option acknowledged
          (sync_records (snd (get_file_content d e uname pw ip protocol)) (uuid4 e)) = Some False)
   \<and> (fresh_ids d' calls \<and> sync_records d' sid = Some r
    \<longrightarrow> (\<exists>r'. sync_records (run d' calls) sid = Some r'
            \<and> (confirmed r \<longrightarrow> confirmed r') \<and> (acknowledged r \<longrightarrow> acknowledged r')))"
  using run_keeps_flags [of d' calls sid r]
        get_file_content_served(2) [of uname pw d e ip protocol]
  by (auto simp: SyncRecord_init_def)


theorem sync_flags_monotonic_witness:
  "verify_user ''admin'' ''password'' (users_file example_dispatcher)
   \<and> io_error (example_env 100 ''id-1'') = None
   \<and> map_option confirmed (sync_records example_opened ''id-1'') = Some False
   \<and> map_option acknowledged (sync_records example_opened ''id-1'') = Some False
   \<and> fresh_ids example_opened
        [(example_env 200 ''id-2'', ''10.0.0.7'', ConfirmSync ''admin'' ''password'' ''id-1''),
         (example_env 300 ''id-3'', ''10.0.0.8'', GetFileContent ''admin'' ''password'' ''RRA''),
         (example_env 400 ''id-4'', ''10.0.0.7'', AcknowledgeSync ''mallory'' ''letmein'' ''id-1'')]
   \<and> map_option confirmed (sync_records example_confirmed ''id-1'') = Some True
   \<and> (\<exists>r'. sync_records
               (run example_confirmed
                  [(example_env 300 ''id-3'', ''10.0.0.8'', GetFileContent ''admin'' ''password'' ''RRA''),
                   (example_env 400 ''id-4'', ''10.0.0.7'', AcknowledgeSync ''admin'' ''password'' ''id-1''),
                   (example_env 500 ''id-5'', ''10.0.0.7'', ConfirmSync ''mallory'' ''letmein'' ''id-1'')])
               ''id-1'' = Some r' \<and> confirmed r')"
proof -
  let ?calls = "[(example_env 300 ''id-3'', ''10.0.0.8'', GetFileContent ''admin'' ''password'' ''RRA''),
                 (example_env 400 ''id-4'', ''10.0.0.7'', AcknowledgeSync ''admin'' ''password'' ''id-1''),
                 (example_env 500 ''id-5'', ''10.0.0.7'', ConfirmSync ''mallory'' ''letmein'' ''id-1'')]"
  let ?r = "(SyncRecord_init ''id-1'' ''10.0.0.7'' ''admin'' 100)
                 \<lparr>confirmed := True, confirmation_time := Some 200\<rparr>"
  have opened: "map_option confirmed (sync_records example_opened ''id-1'') = Some False"
      "map_option acknowledged (sync_records example_opened ''id-1'') = Some False"
    by (simp_all add: example_opened_ledger SyncRecord_init_def)
  have f1: "fresh_ids example_opened
        [(example_env 200 ''id-2'', ''10.0.0.7'', ConfirmSync ''admin'' ''password'' ''id-1''),
         (example_env 300 ''id-3'', ''10.0.0.8'', GetFileContent ''admin'' ''password'' ''RRA''),
         (example_env 400 ''id-4'', ''10.0.0.7'', AcknowledgeSync ''mallory'' ''letmein'' ''id-1'')]"
    by (simp add: confirm_sync_known [OF example_opened_admin] example_opened_ledger)
  have f2: "fresh_ids example_confirmed ?calls"
    by (simp add: example_confirmed_ledger)
  have c: "sync_records example_confirmed ''id-1'' = Some ?r" "confirmed ?r"
    by (simp_all add: example_confirmed_ledger)
  note mono = sync_flags_monotonic
         [of "''admin''" "''password''" example_dispatcher "example_env 100 ''id-1''" "''RR''"
             "''10.0.0.7''" example_confirmed ?calls "''id-1''" ?r]
  from mono f2 c
  have "\<exists>r'. sync_records (run example_confirmed ?calls) ''id-1'' = Some r' \<and> confirmed r'"
    by blast
  moreover have "map_option confirmed (sync_records example_confirmed ''id-1'') = Some True"
    using c by simp
  ultimately show ?thesis
    using opened f1 example_admin by (intro conjI) simp_all
qed

section \<open>Indistinguishable authentication failures\<close>

text \<open>
  Claim C9. For each of the four remote methods, a call with a wrong password for an
  existing user and a call with any password for a user that does not exist get the
  same response, whose error is \<open>Authentication failed\<close>: the response does not tell
  whether the user name exists.
\<close>

theorem authentication_failures_indistinguishable:
  assumes "users_file d = Some tbl"
    and "tbl u1 = Some stored" and "stored \<noteq> hash_password p1"
    and "tbl u2 = None"
  shows "fst (get_file_content d e u1 p1 ip protocol) = fst (get_file_content d e u2 p2 ip protocol)
       \<and> fst (check_master_version d e u1 p1 ip) = fst (check_master_version d e u2 p2 ip)
       \<and> fst (confirm_sync d e u1 p1 sid ip) = fst (confirm_sync d e u2 p2 sid ip)
       \<and> fst (acknowledge_sync d e u1 p1 sid ip) = fst (acknowledge_sync d e u2 p2 sid ip)
       \<and> error (fst (get_file_content d e u1 p1 ip protocol)) = Some ''Authentication failed''
       \<and> error (fst (check_master_version d e u1 p1 ip)) = Some ''Authentication failed''
       \<and> error (fst (confirm_sync d e u1 p1 sid ip)) = Some ''Authentication failed''
       \<and> error (fst (acknowledge_sync d e u1 p1 sid ip)) = Some ''Authentication failed''"
proof -
  have "\<not> verify_user u1 p1 (users_file d)" "\<not> verify_user u2 p2 (users_file d)"
    using assms by (simp_all add: verify_user_def)
  then show ?thesis
    by (simp add: get_file_content_def check_master_version_def confirm_sync_def
          acknowledge_sync_def authenticate_rejects create_response_def)
qed

theorem authentication_failures_indistinguishable_witness:
  "users_file example_dispatcher = Some [''admin'' \<mapsto> hash_password ''password'']
   \<and> [''admin'' \<mapsto> hash_password ''password''] ''admin'' = Some (hash_password ''password'')
   \<and> hash_password ''password'' \<noteq> hash_password ''wrong''
   \<and> [''admin'' \<mapsto> hash_password ''password''] ''mallory'' = None
   \<and> fst (confirm_sync example_dispatcher (example_env 100 ''id-1'') ''admin'' ''wrong'' ''id-1'' ''10.0.0.7'')
       = fst (confirm_sync example_dispatcher (example_env 100 ''id-1'') ''mallory'' ''letmein'' ''id-1'' ''10.0.0.7'')
   \<and> error (fst (get_file_content example_dispatcher (example_env 100 ''id-1'')
                    ''admin'' ''wrong'' ''10.0.0.7'' ''RR'')) = Some ''Authentication failed''
   \<and> error (fst (get_file_content example_dispatcher (example_env 100 ''id-1'')
                    ''mallory'' ''letmein'' ''10.0.0.7'' ''RR'')) = Some ''Authentication failed''"
proof -
  have ne: "hash_password ''password'' \<noteq> hash_password ''wrong''"
    by (simp add: sha_password sha_wrong)
  have known: "[''admin'' \<mapsto> hash_password ''password''] ''admin'' = Some (hash_password ''password'')"
    and unknown: "[''admin'' \<mapsto> hash_password ''password''] ''mallory'' = None"
    by simp_all
  note same = authentication_failures_indistinguishable
         [OF example_users known ne unknown,
          of "example_env 100 ''id-1''" "''10.0.0.7''" "''RR''" "''letmein''" "''id-1''"]
  from same
  have "error (fst (get_file_content example_dispatcher (example_env 100 ''id-1'')
                    ''mallory'' ''letmein'' ''10.0.0.7'' ''RR'')) = Some ''Authentication failed''"
    by (elim conjE) simp
  with same example_users known ne unknown show ?thesis
    by (intro conjI) simp_all
qed

section \<open>Which names \<open>handle_request\<close> serves\<close>




section \<open>The fingerprint of the master file\<close>

text \<open>
  Claim C4, as amended. After a successful \<open>update_content\<close> the fingerprint returned
  by \<open>get_version\<close> is the MD5 digest of the content as it is read back, a function of
  the content alone: byte-identical contents have the same fingerprint, whatever the
  file held before and whenever it is written. (Distinct contents need not have distinct
  fingerprints.)
\<close>

theorem fingerprint_determined_by_content:
  assumes "io_error e1 = None" and "io_error e1' = None"
    and "io_error e2 = None" and "io_error e2' = None"
  shows "map_sum id fst (get_version (snd (update_content fh1 txt e1)) e1')
           = Inr (md5_hexdigest (universal_newlines txt))
       \<and> map_sum id fst (get_version (snd (update_content fh1 txt e1)) e1')
           = map_sum id fst (get_version (snd (update_content fh2 txt e2)) e2')"
  using assms by (simp add: get_version_after_update)

theorem fingerprint_determined_by_content_witness:
  "io_error (example_env 100 ''id-1'') = None \<and> io_error (example_env 200 ''id-2'') = None
   \<and> map_sum id fst
         (get_version (snd (update_content (file_handler example_dispatcher) ''world''
                              (example_env 100 ''id-1''))) (example_env 200 ''id-2''))
       = Inr (md5_hexdigest ''world'')
   \<and> map_sum id fst
         (get_version (snd (update_content (file_handler example_dispatcher) ''world''
                              (example_env 100 ''id-1''))) (example_env 200 ''id-2''))
       = map_sum id fst
         (get_version (snd (update_content (file_handler example_opened) ''world''
                              (example_env 200 ''id-2''))) (example_env 100 ''id-1''))"
  using fingerprint_determined_by_content
          [of "example_env 100 ''id-1''" "example_env 200 ''id-2''"
              "example_env 200 ''id-2''" "example_env 100 ''id-1''"
              "file_handler example_dispatcher" "''world''" "file_handler example_opened"]
  by (simp del: map_sum.simps) (elim conjE, simp)

text \<open>
  Claim C4 as stated fails: the master file holds \<open>collision_left\<close>, then a different
  content \<open>collision_right\<close> is written, and \<open>get_version\<close> returns the same
  fingerprint before and after.
\<close>

theorem distinct_contents_same_fingerprint:
  "collision_left \<noteq> collision_right
   \<and> map_sum id fst
         (get_version (snd (update_content (file_handler example_dispatcher) collision_left
                              (example_env 100 ''id-1''))) (example_env 200 ''id-2''))
       = Inr ''faad49866e9498fc1719f5289e7a0269''
   \<and> map_sum id fst
         (get_version
            (snd (update_content
                    (snd (update_content (file_handler example_dispatcher) collision_left
                            (example_env 100 ''id-1'')))
                    collision_right (example_env 300 ''id-3'')))
            (example_env 400 ''id-4''))
       = Inr ''faad49866e9498fc1719f5289e7a0269''"
  by (simp add: get_version_after_update universal_newlines_collision
        md5_collision_left md5_collision_right)
     (simp add: collision_left_def collision_right_def)

end
